theory Spec2Isabelle
  imports Complex_Main
begin

section \<open>The A/B testing service of the AI service (app/services/ab_testing.py)\<close>

text \<open>
  The service keeps two dictionaries, the experiments by id and the assignments by user
  and experiment, and mutates the experiment and variant objects it stores in place.
  Every experiment object is stored under one key and every variant object in one list,
  so the state is passed explicitly and updates are written as record and list updates.

  A Python \<open>float\<close> that the code computes from counters and draws (rates, lifts, the z
  statistic, the normalised digest) is read as a \<open>real\<close>. A weight is a \<open>py_float\<close>:
  a finite value, an infinity or NaN, with the overflow of sums and quotients to an
  infinity. Rounding inside the finite range is outside this development.
  Python's unbounded \<open>int\<close> is \<open>int\<close>. What raises in the source returns \<open>Inl\<close>.
  \<open>hashlib.md5\<close>, \<open>random.random\<close> and \<open>datetime.utcnow\<close> are not code of the
  service: the digest (as the integer read from its hex form) is a parameter \<open>md5\<close>,
  the number drawn and the current time are arguments of the function that asks for them.
\<close>

subsection \<open>Data\<close>

datatype ExperimentStatus = DRAFT | RUNNING | PAUSED | COMPLETED | CANCELLED

datatype py_error = KeyError | ZeroDivisionError | IndexError | ValueError

datatype cfg_value = CInt int | CFloat real | CBool bool | CStr string

type_synonym config = "string \<rightharpoonup> cfg_value"

type_synonym datetime = int

text \<open>
  The floats of the weights. A sum or a quotient of finite floats whose exact value is
  at least \<open>2^1024 - 2^970\<close> in magnitude (the largest double plus half a unit in its
  last place) is an infinity; below that it stays finite.
\<close>

datatype py_float = Fl real | PInf | NInf | NaN

definition float_overflow :: real where
  "float_overflow = 2 ^ 1024 - 2 ^ 970"

definition to_float :: "real \<Rightarrow> py_float" where
  "to_float r = (if r \<ge> float_overflow then PInf
                 else if r \<le> - float_overflow then NInf else Fl r)"

text \<open>Float addition, \<open>a + b\<close>.\<close>

fun fadd :: "py_float \<Rightarrow> py_float \<Rightarrow> py_float" where
  "fadd NaN b = NaN"
| "fadd a NaN = NaN"
| "fadd PInf NInf = NaN"
| "fadd NInf PInf = NaN"
| "fadd PInf b = PInf"
| "fadd a PInf = PInf"
| "fadd NInf b = NInf"
| "fadd a NInf = NInf"
| "fadd (Fl a) (Fl b) = to_float (a + b)"

text \<open>
  Float division \<open>a / b\<close> for a divisor other than zero (a zero divisor raises
  ZeroDivisionError, which the caller models).
\<close>

fun fdiv :: "py_float \<Rightarrow> py_float \<Rightarrow> py_float" where
  "fdiv NaN b = NaN"
| "fdiv a NaN = NaN"
| "fdiv (Fl a) (Fl b) = to_float (a / b)"
| "fdiv (Fl a) b = Fl 0"
| "fdiv PInf (Fl b) = (if b > 0 then PInf else NInf)"
| "fdiv NInf (Fl b) = (if b > 0 then NInf else PInf)"
| "fdiv a b = NaN"

text \<open>Float comparison \<open>a <= b\<close>: false when either side is NaN.\<close>

fun fle :: "py_float \<Rightarrow> py_float \<Rightarrow> bool" where
  "fle NaN b = False"
| "fle a NaN = False"
| "fle (Fl a) (Fl b) = (a \<le> b)"
| "fle NInf b = True"
| "fle a PInf = True"
| "fle a b = False"

record Variant =
  name :: string
  weight :: py_float
  config :: config
  impressions :: int
  conversions :: int

text \<open>The property \<open>Variant.conversion_rate\<close>.\<close>

definition conversion_rate :: "Variant \<Rightarrow> real" where
  "conversion_rate v =
     (if impressions v = 0 then 0 else real_of_int (conversions v) / real_of_int (impressions v))"

record Experiment =
  eid :: string
  ename :: string
  description :: string
  variants :: "Variant list"
  status :: ExperimentStatus
  created_at :: datetime
  started_at :: "datetime option"
  ended_at :: "datetime option"
  target_sample_size :: int
  target_feature :: string
  metadata :: config

definition total_impressions :: "Experiment \<Rightarrow> int" where
  "total_impressions e = sum_list (map impressions (variants e))"

text \<open>The property \<open>Experiment.is_significant\<close> (enough data).\<close>

definition enough_data :: "Experiment \<Rightarrow> bool" where
  "enough_data e \<longleftrightarrow> total_impressions e \<ge> target_sample_size e"

text \<open>
  One entry of the \<open>variants\<close> argument of \<open>create_experiment\<close>: a dictionary read at the
  keys "name" (by subscript), "weight" and "config" (by \<open>get\<close> with a default).
\<close>

record variant_dict =
  d_name :: "string option"
  d_weight :: "py_float option"
  d_config :: "config option"

record ABTestingService =
  enabled :: bool
  default_variant :: string
  sample_rate :: real
  experiments :: "string \<rightharpoonup> Experiment"
  user_assignments :: "string \<rightharpoonup> (string \<rightharpoonup> string)"

subsection \<open>create_experiment\<close>

text \<open>\<open>v.get("weight", 1.0)\<close>\<close>

definition get_weight :: "variant_dict \<Rightarrow> py_float" where
  "get_weight v = (case d_weight v of None \<Rightarrow> Fl 1 | Some w \<Rightarrow> w)"

definition get_config :: "variant_dict \<Rightarrow> config" where
  "get_config v = (case d_config v of None \<Rightarrow> Map.empty | Some c \<Rightarrow> c)"

text \<open>
  \<open>sum(v.get("weight", 1.0) for v in variants)\<close>: the weights are added to 0 from left to
  right, in float arithmetic.
\<close>

definition total_weight :: "variant_dict list \<Rightarrow> py_float" where
  "total_weight vs = foldl fadd (Fl 0) (map get_weight vs)"

text \<open>
  The loop building \<open>variant_objects\<close>: for each entry \<open>v["name"]\<close> is read first
  (KeyError when absent), then the weight is divided by the total (ZeroDivisionError
  when the total is zero).
\<close>

fun variant_objects :: "py_float \<Rightarrow> variant_dict list \<Rightarrow> py_error + Variant list" where
  "variant_objects tw [] = Inr []"
| "variant_objects tw (v # vs) =
     (case d_name v of
        None \<Rightarrow> Inl KeyError
      | Some n \<Rightarrow>
          if tw = Fl 0 then Inl ZeroDivisionError
          else (case variant_objects tw vs of
                  Inl err \<Rightarrow> Inl err
                | Inr objs \<Rightarrow>
                    Inr (\<lparr>name = n, weight = fdiv (get_weight v) tw, config = get_config v,
                          impressions = 0, conversions = 0\<rparr> # objs)))"

text \<open>The variant object built from an entry that has a name, for the total \<open>tw\<close>.\<close>

definition variant_of_dict :: "py_float \<Rightarrow> variant_dict \<Rightarrow> Variant" where
  "variant_of_dict tw v = \<lparr>name = the (d_name v), weight = fdiv (get_weight v) tw,
     config = get_config v, impressions = 0, conversions = 0\<rparr>"

definition create_experiment ::
  "ABTestingService \<Rightarrow> string \<Rightarrow> string \<Rightarrow> string \<Rightarrow> variant_dict list \<Rightarrow> int \<Rightarrow> string
     \<Rightarrow> datetime \<Rightarrow> py_error + (Experiment \<times> ABTestingService)" where
  "create_experiment s experiment_id nm descr vs tss tf now =
     (case variant_objects (total_weight vs) vs of
        Inl err \<Rightarrow> Inl err
      | Inr objs \<Rightarrow>
          (let experiment = \<lparr>eid = experiment_id, ename = nm, description = descr,
                 variants = objs, status = DRAFT, created_at = now, started_at = None,
                 ended_at = None, target_sample_size = tss, target_feature = tf,
                 metadata = Map.empty\<rparr>
           in Inr (experiment,
                   s\<lparr>experiments := (experiments s)(experiment_id \<mapsto> experiment)\<rparr>)))"

subsection \<open>start_experiment, stop_experiment\<close>

definition start_experiment ::
  "ABTestingService \<Rightarrow> string \<Rightarrow> datetime \<Rightarrow> bool \<times> ABTestingService" where
  "start_experiment s experiment_id now =
     (case experiments s experiment_id of
        None \<Rightarrow> (False, s)
      | Some experiment \<Rightarrow>
          (True, s\<lparr>experiments := (experiments s)(experiment_id \<mapsto>
                     experiment\<lparr>status := RUNNING, started_at := Some now\<rparr>)\<rparr>))"


subsection \<open>get_variant\<close>

text \<open>
  The loop of \<open>_assign_variant\<close>: the position of the first variant whose cumulative
  weight reaches \<open>normalized\<close>, or None when the loop ends without returning.
\<close>

fun assign_loop :: "real \<Rightarrow> py_float \<Rightarrow> nat \<Rightarrow> Variant list \<Rightarrow> nat option" where
  "assign_loop normalized cumulative i [] = None"
| "assign_loop normalized cumulative i (v # vs) =
     (let cumulative' = fadd cumulative (weight v)
      in if fle (Fl normalized) cumulative' then Some i
         else assign_loop normalized cumulative' (Suc i) vs)"

text \<open>
  \<open>_assign_variant\<close> returns a variant object of the experiment, which \<open>get_variant\<close> then
  mutates: the model returns its position. \<open>experiment.variants[-1]\<close> raises IndexError on
  an empty list.
\<close>

definition assign_variant :: "(string \<Rightarrow> nat) \<Rightarrow> Experiment \<Rightarrow> string \<Rightarrow> py_error + nat" where
  "assign_variant md5 experiment user_id =
     (let hash_input = user_id @ '':'' @ eid experiment;
          hash_value = md5 hash_input;
          normalized = real (hash_value mod 10000) / 10000
      in case assign_loop normalized (Fl 0) 0 (variants experiment) of
           Some i \<Rightarrow> Inr i
         | None \<Rightarrow>
             if variants experiment = [] then Inl IndexError
             else Inr (length (variants experiment) - 1))"

text \<open>
  \<open>get_variant\<close>, with the number \<open>r\<close> that \<open>random.random()\<close> returns when it is called.
  The result is the pair (variant name, variant config) and the state after the call.
\<close>

definition get_variant ::
  "(string \<Rightarrow> nat) \<Rightarrow> ABTestingService \<Rightarrow> string \<Rightarrow> string \<Rightarrow> real
     \<Rightarrow> py_error + ((string \<times> config) \<times> ABTestingService)" where
  "get_variant md5 s experiment_id user_id r =
     (if \<not> enabled s then Inr ((default_variant s, Map.empty), s)
      else case experiments s experiment_id of
        None \<Rightarrow> Inr ((default_variant s, Map.empty), s)
      | Some experiment \<Rightarrow>
          if status experiment \<noteq> RUNNING then Inr ((default_variant s, Map.empty), s)
          else
            (case (case user_assignments s user_id of
                     None \<Rightarrow> None
                   | Some a \<Rightarrow>
                       (case a experiment_id of
                          None \<Rightarrow> None
                        | Some variant_name \<Rightarrow>
                            find (\<lambda>v. name v = variant_name) (variants experiment))) of
               Some v \<Rightarrow> Inr ((name v, config v), s)
             | None \<Rightarrow>
                 if r > sample_rate s then Inr ((default_variant s, Map.empty), s)
                 else
                   (case assign_variant md5 experiment user_id of
                      Inl err \<Rightarrow> Inl err
                    | Inr i \<Rightarrow>
                        (let variant = variants experiment ! i;
                             a = (case user_assignments s user_id of
                                    None \<Rightarrow> Map.empty | Some a \<Rightarrow> a);
                             variant' = variant\<lparr>impressions := impressions variant + 1\<rparr>
                         in Inr ((name variant', config variant'),
                                 s\<lparr>user_assignments := (user_assignments s)
                                      (user_id \<mapsto> a(experiment_id \<mapsto> name variant)),
                                    experiments := (experiments s)(experiment_id \<mapsto>
                                      experiment\<lparr>variants :=
                                        (variants experiment)[i := variant']\<rparr>)\<rparr>)))))"

text \<open>
  Repeated calls of \<open>get_variant\<close> for one experiment and one user, one call for each
  number drawn, each call starting in the state the call before it left.
\<close>

fun get_variant_calls ::
  "(string \<Rightarrow> nat) \<Rightarrow> ABTestingService \<Rightarrow> string \<Rightarrow> string \<Rightarrow> real list
     \<Rightarrow> py_error + ((string \<times> config) list \<times> ABTestingService)" where
  "get_variant_calls md5 s experiment_id user_id [] = Inr ([], s)"
| "get_variant_calls md5 s experiment_id user_id (r # rs) =
     (case get_variant md5 s experiment_id user_id r of
        Inl err \<Rightarrow> Inl err
      | Inr (res, s') \<Rightarrow>
          (case get_variant_calls md5 s' experiment_id user_id rs of
             Inl err \<Rightarrow> Inl err
           | Inr (ress, s'') \<Rightarrow> Inr (res # ress, s'')))"

subsection \<open>record_conversion\<close>

text \<open>
  The loop of \<open>record_conversion\<close>: the first variant with the assigned name gets one more
  conversion; None when no variant has that name.
\<close>

fun bump_conversions :: "string \<Rightarrow> Variant list \<Rightarrow> Variant list option" where
  "bump_conversions variant_name [] = None"
| "bump_conversions variant_name (v # vs) =
     (if name v = variant_name then Some (v\<lparr>conversions := conversions v + 1\<rparr> # vs)
      else map_option ((#) v) (bump_conversions variant_name vs))"

text \<open>The arguments \<open>value\<close> and \<open>metadata\<close> are never read and are left out.\<close>

definition record_conversion ::
  "ABTestingService \<Rightarrow> string \<Rightarrow> string \<Rightarrow> bool \<times> ABTestingService" where
  "record_conversion s experiment_id user_id =
     (case experiments s experiment_id of
        None \<Rightarrow> (False, s)
      | Some experiment \<Rightarrow>
          (case user_assignments s user_id of
             None \<Rightarrow> (False, s)
           | Some a \<Rightarrow>
               (case a experiment_id of
                  None \<Rightarrow> (False, s)
                | Some variant_name \<Rightarrow>
                    (case bump_conversions variant_name (variants experiment) of
                       None \<Rightarrow> (False, s)
                     | Some vs' \<Rightarrow>
                         (True, s\<lparr>experiments := (experiments s)(experiment_id \<mapsto>
                                    experiment\<lparr>variants := vs'\<rparr>)\<rparr>)))))"

subsection \<open>get_experiment_results\<close>

record variant_result =
  r_name :: string
  r_impressions :: int
  r_conversions :: int
  r_conversion_rate :: real
  r_lift :: real

definition make_result :: "Variant \<Rightarrow> real \<Rightarrow> variant_result" where
  "make_result v l = \<lparr>r_name = name v, r_impressions = impressions v,
     r_conversions = conversions v, r_conversion_rate = conversion_rate v, r_lift = l\<rparr>"

text \<open>
  The loop over the variants, with the variables \<open>best_variant\<close> and \<open>best_lift\<close> as
  arguments; \<open>variant != control\<close> compares the fields of the two dataclass objects.
\<close>

fun results_loop ::
  "Variant \<Rightarrow> Variant \<Rightarrow> real \<Rightarrow> Variant list \<Rightarrow> Variant \<times> real \<times> variant_result list" where
  "results_loop control best_variant best_lift [] = (best_variant, best_lift, [])"
| "results_loop control best_variant best_lift (v # vs) =
     (if conversion_rate control > 0 then
        (let lift = (conversion_rate v - conversion_rate control) / conversion_rate control * 100
         in if lift > best_lift \<and> v \<noteq> control then
              (case results_loop control v lift vs of
                 (b, l, rs) \<Rightarrow> (b, l, make_result v lift # rs))
            else
              (case results_loop control best_variant best_lift vs of
                 (b, l, rs) \<Rightarrow> (b, l, make_result v lift # rs)))
      else
        (case results_loop control best_variant best_lift vs of
           (b, l, rs) \<Rightarrow> (b, l, make_result v 0 # rs)))"

text \<open>
  \<open>_calculate_significance\<close>. \<open>math.sqrt\<close> raises ValueError on a negative argument.
\<close>

definition calculate_significance :: "Variant \<Rightarrow> Variant \<Rightarrow> py_error + (bool \<times> real)" where
  "calculate_significance control treatment =
     (let n1 = impressions control; n2 = impressions treatment
      in if n1 < 100 \<or> n2 < 100 then Inr (False, 0)
         else
           (let p1 = conversion_rate control;
                p2 = conversion_rate treatment;
                p_pool = real_of_int (conversions control + conversions treatment)
                           / real_of_int (n1 + n2)
            in if p_pool = 0 \<or> p_pool = 1 then Inr (False, 0)
               else
                 (let x = p_pool * (1 - p_pool) * (1 / real_of_int n1 + 1 / real_of_int n2)
                  in if x < 0 then Inl ValueError
                     else
                       (let se = sqrt x
                        in if se = 0 then Inr (False, 0)
                           else
                             (let z = \<bar>p2 - p1\<bar> / se;
                                  confidence = min 99.9 (50 + z * 25);
                                  is_significant = (z \<ge> 1.96)
                              in Inr (is_significant, confidence))))))"

text \<open>The recommendation is a formatted text in the source; here its case and its numbers.\<close>

datatype recommendation =
  ContinueCollecting
| Implement string real real
| KeepControl
| NeedMore int

record ExperimentResult =
  experiment_id :: string
  winner :: "string option"
  confidence :: real
  lift :: real
  variant_results :: "variant_result list"
  is_significant :: bool
  recommendation :: recommendation

text \<open>
  \<open>get_experiment_results\<close> reads the state and changes nothing. \<open>Inr None\<close> is the
  result None for an unknown experiment; \<open>experiment.variants[0]\<close> raises IndexError on
  an experiment without variants.
\<close>

definition get_experiment_results ::
  "ABTestingService \<Rightarrow> string \<Rightarrow> py_error + ExperimentResult option" where
  "get_experiment_results s i =
     (case experiments s i of
        None \<Rightarrow> Inr None
      | Some experiment \<Rightarrow>
          (case variants experiment of
             [] \<Rightarrow> Inl IndexError
           | control # _ \<Rightarrow>
               (case results_loop control control 0 (variants experiment) of
                  (best_variant, best_lift, vrs) \<Rightarrow>
                    (case calculate_significance control best_variant of
                       Inl err \<Rightarrow> Inl err
                     | Inr (sig, conf) \<Rightarrow>
                         (let (w, rec) =
                            (if sig \<and> best_lift > 5 then
                               (Some (name best_variant),
                                Implement (name best_variant) best_lift conf)
                             else if enough_data experiment \<and> best_lift \<le> 0 then
                               (Some (name control), KeepControl)
                             else if \<not> enough_data experiment then
                               (None, NeedMore (target_sample_size experiment
                                                  - total_impressions experiment))
                             else (None, ContinueCollecting))
                          in Inr (Some \<lparr>experiment_id = i, winner = w, confidence = conf,
                                lift = best_lift, variant_results = vrs,
                                is_significant = sig, recommendation = rec\<rparr>))))))"

subsection \<open>Sequences of operations\<close>



text \<open>The assignment stored for a user in an experiment, if any.\<close>

definition assignment_of :: "ABTestingService \<Rightarrow> string \<Rightarrow> string \<Rightarrow> string option" where
  "assignment_of s u i =
     (case user_assignments s u of None \<Rightarrow> None | Some a \<Rightarrow> a i)"

subsection \<open>The words of the specification\<close>

text \<open>
  The lift of a variant against the control as the specification words it, to be compared
  with what the loop of \<open>get_experiment_results\<close> computes.
\<close>

definition spec_lift :: "Variant \<Rightarrow> Variant \<Rightarrow> real" where
  "spec_lift control v =
     (if conversion_rate control > 0
      then (conversion_rate v - conversion_rate control) / conversion_rate control * 100
      else 0)"

text \<open>
  The pooled proportion and the z statistic of the two-proportion test as the
  specification words them, to be compared with \<open>_calculate_significance\<close>.
\<close>

definition pooled :: "Variant \<Rightarrow> Variant \<Rightarrow> real" where
  "pooled c b = real_of_int (conversions c + conversions b)
                  / real_of_int (impressions c + impressions b)"

definition z_score :: "Variant \<Rightarrow> Variant \<Rightarrow> real" where
  "z_score c b = \<bar>conversion_rate b - conversion_rate c\<bar>
     / sqrt (pooled c b * (1 - pooled c b)
             * (1 / real_of_int (impressions c) + 1 / real_of_int (impressions b)))"


text \<open>
  The list of variants after \<open>variant.impressions += 1\<close> on the variant at position \<open>k\<close>.
\<close>

definition count_impression :: "Variant list \<Rightarrow> nat \<Rightarrow> Variant list" where
  "count_impression vs k = vs[k := (vs ! k)\<lparr>impressions := impressions (vs ! k) + 1\<rparr>]"

subsection \<open>Concrete states\<close>

text \<open>
  The MD5 digest of the text user123:e1, hex 6ffa1ff470f2abef02941c53405590d8, read as an
  integer; no other text is hashed in the examples below.
\<close>

definition md5_user123_e1 :: "string \<Rightarrow> nat" where
  "md5_user123_e1 inp =
     (if inp = ''user123:e1'' then 148843029868084428563700319874822017240 else 0)"

text \<open>
  A variant with weight one half and an empty config, an experiment with the id e1, and a
  service holding that experiment only, with the default variant "control" of the
  settings.
\<close>

definition mk_variant :: "string \<Rightarrow> int \<Rightarrow> int \<Rightarrow> Variant" where
  "mk_variant n i c =
     \<lparr>name = n, weight = Fl (1 / 2), config = Map.empty, impressions = i, conversions = c\<rparr>"

definition mk_experiment ::
  "ExperimentStatus \<Rightarrow> datetime option \<Rightarrow> Variant list \<Rightarrow> Experiment" where
  "mk_experiment st t vs = \<lparr>eid = ''e1'', ename = ''Experiment 1'', description = [],
     variants = vs, status = st, created_at = 0, started_at = t, ended_at = None,
     target_sample_size = 1000, target_feature = ''default'', metadata = Map.empty\<rparr>"

definition mk_service ::
  "real \<Rightarrow> Experiment \<Rightarrow> (string \<rightharpoonup> (string \<rightharpoonup> string)) \<Rightarrow> ABTestingService" where
  "mk_service sr x ua = \<lparr>enabled = True, default_variant = ''control'', sample_rate = sr,
     experiments = [''e1'' \<mapsto> x], user_assignments = ua\<rparr>"

definition two_arms :: "Variant list" where
  "two_arms = [mk_variant ''control'' 0 0, mk_variant ''treatment'' 0 0]"


text \<open>An entry \<open>{"name": n, "weight": w}\<close> of the \<open>variants\<close> argument.\<close>

definition mk_dict :: "string \<Rightarrow> real \<Rightarrow> variant_dict" where
  "mk_dict n w = \<lparr>d_name = Some n, d_weight = Some (Fl w), d_config = None\<rparr>"

section \<open>Properties\<close>

subsection \<open>Lifecycle\<close>

text \<open>
  C6, as the code has it: \<open>start_experiment\<close> is guarded by nothing but the existence of
  the experiment. Here a Completed experiment is moved back to Running, and starting an
  experiment that is already Running overwrites \<open>started_at\<close> (1 becomes 5), so the call
  is not a no-op.
\<close>

theorem start_experiment_counterexample:
  "start_experiment (mk_service 1 (mk_experiment COMPLETED (Some 1) two_arms) Map.empty) ''e1'' 5
     = (True, mk_service 1 (mk_experiment RUNNING (Some 5) two_arms) Map.empty)
   \<and> start_experiment (mk_service 1 (mk_experiment RUNNING (Some 1) two_arms) Map.empty) ''e1'' 5
     = (True, mk_service 1 (mk_experiment RUNNING (Some 5) two_arms) Map.empty)
   \<and> mk_service 1 (mk_experiment RUNNING (Some 5) two_arms) Map.empty
       \<noteq> mk_service 1 (mk_experiment RUNNING (Some 1) two_arms) Map.empty"
  by (simp add: start_experiment_def mk_service_def mk_experiment_def fun_eq_iff)

text \<open>
  C6, amended: on an unknown id \<open>start_experiment\<close> returns False and changes nothing; on
  an existing experiment, whatever its status, it returns True, sets the status to
  Running and \<open>started_at\<close> to the current time, and changes nothing else: not the other
  fields of the experiment, not the other experiments, not the assignments.
\<close>

theorem start_experiment_effect:
  "(experiments s i = None \<longrightarrow> start_experiment s i now = (False, s)) \<and>
   (\<forall>x. experiments s i = Some x \<longrightarrow>
      (\<exists>s'. start_experiment s i now = (True, s') \<and>
            experiments s' i = Some (x\<lparr>status := RUNNING, started_at := Some now\<rparr>) \<and>
            (\<forall>j. j \<noteq> i \<longrightarrow> experiments s' j = experiments s j) \<and>
            user_assignments s' = user_assignments s \<and> enabled s' = enabled s \<and>
            default_variant s' = default_variant s \<and> sample_rate s' = sample_rate s))"
  by (simp add: start_experiment_def)

theorem start_experiment_effect_witness:
  "\<exists>s'. start_experiment (mk_service 1 (mk_experiment PAUSED (Some 1) two_arms) Map.empty) ''e1'' 5
          = (True, s') \<and>
        experiments s' ''e1'' = Some (mk_experiment RUNNING (Some 5) two_arms)"
  using start_experiment_effect
    [of "mk_service 1 (mk_experiment PAUSED (Some 1) two_arms) Map.empty" "''e1''" 5]
  by (auto simp add: mk_service_def mk_experiment_def)

subsection \<open>Assignment outside a running experiment\<close>

text \<open>
  C8: for an experiment that exists and is not Running (Draft, Paused, Completed or
  Cancelled), \<open>get_variant\<close> returns the default variant of the settings with an empty
  config, for every user and every number drawn, and the state after the call is the
  state before it: no assignment is stored and no counter moves.
\<close>

theorem get_variant_not_running:
  assumes "experiments s i = Some x" and "status x \<noteq> RUNNING"
  shows "get_variant md5 s i u r = Inr ((default_variant s, Map.empty), s)"
  using assms by (simp add: get_variant_def)

theorem get_variant_not_running_witness:
  "experiments (mk_service 1 (mk_experiment DRAFT None two_arms) Map.empty) ''e1'' \<noteq> None \<and>
   get_variant (\<lambda>_. 0) (mk_service 1 (mk_experiment DRAFT None two_arms) Map.empty)
       ''e1'' ''user123'' 0
     = Inr ((''control'', Map.empty), mk_service 1 (mk_experiment DRAFT None two_arms) Map.empty)"
proof -
  obtain x where x: "experiments (mk_service 1 (mk_experiment DRAFT None two_arms) Map.empty) ''e1''
      = Some x" and st: "status x \<noteq> RUNNING"
    by (simp add: mk_service_def mk_experiment_def)
  from get_variant_not_running [OF x st, of "\<lambda>_. 0" "''user123''" 0] x
  show ?thesis by (simp add: mk_service_def)
qed

subsection \<open>Conversions\<close>

lemma bump_conversions_first:
  "n \<in> name ` set vs \<Longrightarrow>
   \<exists>k<length vs. name (vs ! k) = n \<and> (\<forall>j<k. name (vs ! j) \<noteq> n) \<and>
     bump_conversions n vs = Some (vs[k := (vs ! k)\<lparr>conversions := conversions (vs ! k) + 1\<rparr>])"
proof (induction vs)
  case Nil
  then show ?case by simp
next
  case (Cons v vs)
  show ?case
  proof (cases "name v = n")
    case True
    then show ?thesis by (intro exI [of _ 0]) simp
  next
    case False
    with Cons.prems have "n \<in> name ` set vs" by auto
    from Cons.IH [OF this] obtain k where k: "k < length vs" "name (vs ! k) = n"
      "\<forall>j<k. name (vs ! j) \<noteq> n"
      "bump_conversions n vs = Some (vs[k := (vs ! k)\<lparr>conversions := conversions (vs ! k) + 1\<rparr>])"
      by blast
    have "\<forall>j<Suc k. name ((v # vs) ! j) \<noteq> n"
      using False k(3) by (auto simp: nth_Cons split: nat.splits)
    with k False show ?thesis by (intro exI [of _ "Suc k"]) simp
  qed
qed

text \<open>
  C9: for an existing experiment, \<open>record_conversion\<close> returns False (its failure value)
  and leaves the whole state as it was when no assignment is stored for the user in the
  experiment; when an assignment is stored and names a variant of the experiment, it
  returns True and the state differs in one place only: the first variant of that name
  has one more conversion.
\<close>

theorem record_conversion_requires_assignment:
  assumes "experiments s i = Some x"
  shows "(assignment_of s u i = None \<longrightarrow> record_conversion s i u = (False, s)) \<and>
         (\<forall>n. assignment_of s u i = Some n \<and> n \<in> name ` set (variants x) \<longrightarrow>
            (\<exists>k<length (variants x). name (variants x ! k) = n \<and>
                (\<forall>j<k. name (variants x ! j) \<noteq> n) \<and>
                record_conversion s i u =
                  (True, s\<lparr>experiments := (experiments s)(i \<mapsto> x\<lparr>variants :=
                     (variants x)[k := (variants x ! k)\<lparr>conversions :=
                        conversions (variants x ! k) + 1\<rparr>]\<rparr>)\<rparr>)))"
proof (intro conjI allI impI)
  assume "assignment_of s u i = None"
  with assms show "record_conversion s i u = (False, s)"
    by (auto simp add: record_conversion_def assignment_of_def split: option.splits)
next
  fix n assume a: "assignment_of s u i = Some n \<and> n \<in> name ` set (variants x)"
  from bump_conversions_first [of n "variants x"] a obtain k where
    k: "k < length (variants x)" "name (variants x ! k) = n"
       "\<forall>j<k. name (variants x ! j) \<noteq> n"
       "bump_conversions n (variants x) =
          Some ((variants x)[k := (variants x ! k)\<lparr>conversions := conversions (variants x ! k) + 1\<rparr>])"
    by blast
  from a assms k(4) have "record_conversion s i u =
      (True, s\<lparr>experiments := (experiments s)(i \<mapsto> x\<lparr>variants :=
         (variants x)[k := (variants x ! k)\<lparr>conversions := conversions (variants x ! k) + 1\<rparr>]\<rparr>)\<rparr>)"
    by (auto simp add: record_conversion_def assignment_of_def split: option.splits)
  with k(1,2,3) show "\<exists>k<length (variants x). name (variants x ! k) = n \<and>
                (\<forall>j<k. name (variants x ! j) \<noteq> n) \<and>
                record_conversion s i u =
                  (True, s\<lparr>experiments := (experiments s)(i \<mapsto> x\<lparr>variants :=
                     (variants x)[k := (variants x ! k)\<lparr>conversions :=
                        conversions (variants x ! k) + 1\<rparr>]\<rparr>)\<rparr>)"
    by blast
qed

theorem record_conversion_requires_assignment_witness:
  "record_conversion (mk_service 1 (mk_experiment RUNNING (Some 1) two_arms)
        [''user123'' \<mapsto> [''e1'' \<mapsto> ''treatment'']]) ''e1'' ''user_not_assigned''
     = (False, mk_service 1 (mk_experiment RUNNING (Some 1) two_arms)
          [''user123'' \<mapsto> [''e1'' \<mapsto> ''treatment'']])
   \<and> record_conversion (mk_service 1 (mk_experiment RUNNING (Some 1) two_arms)
        [''user123'' \<mapsto> [''e1'' \<mapsto> ''treatment'']]) ''e1'' ''user123''
     = (True, mk_service 1 (mk_experiment RUNNING (Some 1)
                 [mk_variant ''control'' 0 0, mk_variant ''treatment'' 0 1])
          [''user123'' \<mapsto> [''e1'' \<mapsto> ''treatment'']])"
proof -
  let ?s = "mk_service 1 (mk_experiment RUNNING (Some 1) two_arms)
        [''user123'' \<mapsto> [''e1'' \<mapsto> ''treatment'']]"
  have x: "experiments ?s ''e1'' = Some (mk_experiment RUNNING (Some 1) two_arms)"
    by (simp add: mk_service_def)
  have none: "assignment_of ?s ''user_not_assigned'' ''e1'' = None"
    by (simp add: assignment_of_def mk_service_def)
  have some: "assignment_of ?s ''user123'' ''e1'' = Some ''treatment'' \<and>
      ''treatment'' \<in> name ` set (variants (mk_experiment RUNNING (Some 1) two_arms))"
    by (simp add: assignment_of_def mk_service_def mk_experiment_def two_arms_def mk_variant_def)
  from record_conversion_requires_assignment [OF x, of "''user_not_assigned''"] none
  have a: "record_conversion ?s ''e1'' ''user_not_assigned'' = (False, ?s)"
    by blast
  from record_conversion_requires_assignment [OF x, of "''user123''"] some
  obtain k where k: "k < length (variants (mk_experiment RUNNING (Some 1) two_arms))"
      "name (variants (mk_experiment RUNNING (Some 1) two_arms) ! k) = ''treatment''"
      "record_conversion ?s ''e1'' ''user123'' =
         (True, ?s\<lparr>experiments := (experiments ?s)(''e1'' \<mapsto>
            (mk_experiment RUNNING (Some 1) two_arms)\<lparr>variants :=
              (variants (mk_experiment RUNNING (Some 1) two_arms))[k :=
                 (variants (mk_experiment RUNNING (Some 1) two_arms) ! k)\<lparr>conversions :=
                    conversions (variants (mk_experiment RUNNING (Some 1) two_arms) ! k) + 1\<rparr>]\<rparr>)\<rparr>)"
    by blast
  from k(1,2) have "k = 1"
    by (cases k) (simp_all add: mk_experiment_def two_arms_def mk_variant_def)
  with k(3) have b: "record_conversion ?s ''e1'' ''user123''
     = (True, mk_service 1 (mk_experiment RUNNING (Some 1)
                 [mk_variant ''control'' 0 0, mk_variant ''treatment'' 0 1])
          [''user123'' \<mapsto> [''e1'' \<mapsto> ''treatment'']])"
    by (simp add: mk_service_def mk_experiment_def two_arms_def mk_variant_def)
  from a b show ?thesis by simp
qed

subsection \<open>Floats\<close>

lemma float_overflow_gt: "2 ^ 1023 < float_overflow"
  by (simp add: float_overflow_def)

lemma to_float_finite: "- float_overflow < r \<Longrightarrow> r < float_overflow \<Longrightarrow> to_float r = Fl r"
  by (simp add: to_float_def)

lemma to_float_small: "\<bar>r\<bar> \<le> 2 ^ 1023 \<Longrightarrow> to_float r = Fl r"
  using float_overflow_gt by (intro to_float_finite) linarith+

subsection \<open>Creation\<close>

lemma variant_objects_named:
  "list_all (\<lambda>v. d_name v \<noteq> None) vs \<Longrightarrow> tw \<noteq> Fl 0 \<Longrightarrow>
   variant_objects tw vs = Inr (map (variant_of_dict tw) vs)"
  by (induction vs) (auto simp: variant_of_dict_def)

lemma variant_objects_zero:
  "d_name v \<noteq> None \<Longrightarrow> variant_objects (Fl 0) (v # vs) = Inl ZeroDivisionError"
  by auto

text \<open>
  C3, as the code has it: \<open>create_experiment\<close> checks nothing. With one variant (as the
  tests of \<open>get_all_experiments\<close> create them) it returns an experiment and registers it;
  with the weights -1 and 3 it returns an experiment with the weights -1/2 and 3/2.
\<close>

theorem create_experiment_counterexample:
  "create_experiment (mk_service 1 (mk_experiment DRAFT None two_arms) Map.empty)
      ''exp1'' ''Experiment 1'' ''Test 1'' [mk_dict ''a'' 1] 1000 ''default'' 7
   = Inr (\<lparr>eid = ''exp1'', ename = ''Experiment 1'', description = ''Test 1'',
           variants = [\<lparr>name = ''a'', weight = Fl 1, config = Map.empty, impressions = 0, conversions = 0\<rparr>],
           status = DRAFT, created_at = 7, started_at = None, ended_at = None,
           target_sample_size = 1000, target_feature = ''default'', metadata = Map.empty\<rparr>,
          (mk_service 1 (mk_experiment DRAFT None two_arms) Map.empty)\<lparr>experiments :=
            [''e1'' \<mapsto> mk_experiment DRAFT None two_arms,
             ''exp1'' \<mapsto> \<lparr>eid = ''exp1'', ename = ''Experiment 1'', description = ''Test 1'',
           variants = [\<lparr>name = ''a'', weight = Fl 1, config = Map.empty, impressions = 0, conversions = 0\<rparr>],
           status = DRAFT, created_at = 7, started_at = None, ended_at = None,
           target_sample_size = 1000, target_feature = ''default'', metadata = Map.empty\<rparr>]\<rparr>)
   \<and> map weight (variants (fst (projr (create_experiment (mk_service 1 (mk_experiment DRAFT None two_arms) Map.empty)
      ''exp2'' ''Experiment 2'' ''Test 2'' [mk_dict ''a'' (- 1), mk_dict ''b'' 3] 1000 ''default'' 7))))
      = [Fl (- 1 / 2), Fl (3 / 2)]"
  by (simp add: create_experiment_def total_weight_def get_weight_def get_config_def mk_dict_def
        mk_service_def Let_def to_float_small)

text \<open>
  C3, amended: \<open>create_experiment\<close> has no check of the number of variants or of the sign
  of the weights. Whenever every entry has a name and the list is empty or its weights have
  a sum other than zero, it returns an experiment in Draft under the given id, with one
  variant for each entry, its weight the entry's weight divided by the sum, and registers
  it; the rest of the state is as before.
\<close>

theorem create_experiment_unvalidated:
  assumes "list_all (\<lambda>v. d_name v \<noteq> None) vs" and "vs = [] \<or> total_weight vs \<noteq> Fl 0"
  shows "\<exists>x. create_experiment s i nm descr vs tss tf now
               = Inr (x, s\<lparr>experiments := (experiments s)(i \<mapsto> x)\<rparr>) \<and>
             eid x = i \<and> status x = DRAFT \<and>
             variants x = map (variant_of_dict (total_weight vs)) vs"
proof (cases "vs = []")
  case True
  then show ?thesis by (simp add: create_experiment_def Let_def)
next
  case False
  with assms(2) have "total_weight vs \<noteq> Fl 0" by simp
  from variant_objects_named [OF assms(1) this] show ?thesis
    by (simp add: create_experiment_def Let_def)
qed

theorem create_experiment_unvalidated_witness:
  "\<exists>x. create_experiment (mk_service 1 (mk_experiment DRAFT None two_arms) Map.empty)
            ''exp2'' ''Experiment 2'' ''Test 2'' [mk_dict ''a'' (- 1)] 1000 ''default'' 7
          = Inr (x, (mk_service 1 (mk_experiment DRAFT None two_arms) Map.empty)
                      \<lparr>experiments := (experiments (mk_service 1 (mk_experiment DRAFT None two_arms) Map.empty))(''exp2'' \<mapsto> x)\<rparr>) \<and>
        status x = DRAFT \<and> map weight (variants x) = [Fl 1]"
proof -
  have a: "list_all (\<lambda>v. d_name v \<noteq> None) [mk_dict ''a'' (- 1)]"
    by (simp add: mk_dict_def)
  have b: "[mk_dict ''a'' (- 1)] = [] \<or> total_weight [mk_dict ''a'' (- 1)] \<noteq> Fl 0"
    by (simp add: total_weight_def get_weight_def mk_dict_def to_float_small)
  from create_experiment_unvalidated [OF a b,
      of "mk_service 1 (mk_experiment DRAFT None two_arms) Map.empty" "''exp2''"
         "''Experiment 2''" "''Test 2''" 1000 "''default''" 7]
  show ?thesis
    by (auto simp add: variant_of_dict_def total_weight_def get_weight_def mk_dict_def
          to_float_small)
qed

text \<open>
  C10, as the code has it: the weights of the empty list sum to 0, the loop that divides
  does not run, and an experiment without variants is returned and registered.
\<close>

theorem create_experiment_zero_sum_counterexample:
  "total_weight [] = Fl 0 \<and>
   create_experiment (mk_service 1 (mk_experiment DRAFT None two_arms) Map.empty)
      ''exp0'' ''Experiment 0'' ''Test 0'' [] 1000 ''default'' 7
   = Inr (\<lparr>eid = ''exp0'', ename = ''Experiment 0'', description = ''Test 0'',
           variants = [], status = DRAFT, created_at = 7, started_at = None, ended_at = None,
           target_sample_size = 1000, target_feature = ''default'', metadata = Map.empty\<rparr>,
          (mk_service 1 (mk_experiment DRAFT None two_arms) Map.empty)\<lparr>experiments :=
            [''e1'' \<mapsto> mk_experiment DRAFT None two_arms,
             ''exp0'' \<mapsto> \<lparr>eid = ''exp0'', ename = ''Experiment 0'', description = ''Test 0'',
           variants = [], status = DRAFT, created_at = 7, started_at = None, ended_at = None,
           target_sample_size = 1000, target_feature = ''default'', metadata = Map.empty\<rparr>]\<rparr>)"
  by (simp add: create_experiment_def total_weight_def mk_service_def Let_def)

text \<open>
  C10, amended: for every list of entries that is not empty, whose first entry has a name
  and whose weights sum to 0, \<open>create_experiment\<close> raises ZeroDivisionError: it returns
  no experiment, and nothing is registered.
\<close>

theorem create_experiment_zero_sum:
  assumes "vs \<noteq> []" and "d_name (hd vs) \<noteq> None" and "total_weight vs = Fl 0"
  shows "create_experiment s i nm descr vs tss tf now = Inl ZeroDivisionError"
  using assms by (cases vs) (auto simp add: create_experiment_def Let_def)

theorem create_experiment_zero_sum_witness:
  "create_experiment (mk_service 1 (mk_experiment DRAFT None two_arms) Map.empty)
      ''exp0'' ''Experiment 0'' ''Test 0'' [mk_dict ''a'' 0, mk_dict ''b'' 0] 1000 ''default'' 7
   = Inl ZeroDivisionError"
proof -
  have a: "[mk_dict ''a'' 0, mk_dict ''b'' 0] \<noteq> []" by simp
  have b: "d_name (hd [mk_dict ''a'' 0, mk_dict ''b'' 0]) \<noteq> None" by (simp add: mk_dict_def)
  have c: "total_weight [mk_dict ''a'' 0, mk_dict ''b'' 0] = Fl 0"
    by (simp add: total_weight_def get_weight_def mk_dict_def to_float_small)
  from create_experiment_zero_sum [OF a b c] show ?thesis .
qed


subsection \<open>Weights after creation\<close>














subsection \<open>Lift and the best variant\<close>

lemma spec_lift_control: "spec_lift c c = 0"
  by (simp add: spec_lift_def)

lemma results_loop_lifts:
  "results_loop c b0 l0 vs = (b, l, rs) \<Longrightarrow> map r_lift rs = map (spec_lift c) vs"
  by (induction vs arbitrary: b0 l0 b l rs)
     (auto simp add: spec_lift_def make_result_def Let_def split: if_splits prod.splits)

lemma results_loop_step:
  "results_loop c b0 l0 (v # vs) = (b, l, rs) \<Longrightarrow> 0 \<le> l0 \<Longrightarrow>
   \<exists>rs'. results_loop c (if spec_lift c v > l0 then v else b0)
                (if spec_lift c v > l0 then spec_lift c v else l0) vs = (b, l, rs')"
  by (auto simp add: spec_lift_def Let_def split: if_splits prod.splits)

lemma results_loop_none:
  "results_loop c b0 l0 vs = (b, l, rs) \<Longrightarrow> 0 \<le> l0 \<Longrightarrow>
   \<forall>v\<in>set vs. spec_lift c v \<le> l0 \<Longrightarrow> b = b0 \<and> l = l0"
proof (induction vs arbitrary: b0 l0 rs)
  case Nil
  then show ?case by simp
next
  case (Cons v vs)
  from Cons.prems(3) have le: "\<not> spec_lift c v > l0" by auto
  from results_loop_step [OF Cons.prems(1,2)] le
  obtain rs' where "results_loop c b0 l0 vs = (b, l, rs')" by auto
  from Cons.IH [OF this Cons.prems(2)] Cons.prems(3) show ?case by simp
qed

lemma results_loop_some:
  "results_loop c b0 l0 vs = (b, l, rs) \<Longrightarrow> 0 \<le> l0 \<Longrightarrow>
   \<exists>v\<in>set vs. spec_lift c v > l0 \<Longrightarrow>
   \<exists>k<length vs. b = vs ! k \<and> l = spec_lift c (vs ! k) \<and> l0 < l \<and>
      (\<forall>j<length vs. spec_lift c (vs ! j) \<le> l) \<and> (\<forall>j<k. spec_lift c (vs ! j) < l)"
proof (induction vs arbitrary: b0 l0 rs)
  case Nil
  then show ?case by simp
next
  case (Cons v vs)
  let ?L = "spec_lift c"
  let ?b1 = "if ?L v > l0 then v else b0"
  let ?l1 = "if ?L v > l0 then ?L v else l0"
  from results_loop_step [OF Cons.prems(1,2)]
  obtain rs' where step: "results_loop c ?b1 ?l1 vs = (b, l, rs')" by auto
  have l1: "0 \<le> ?l1" "l0 \<le> ?l1" "?L v \<le> ?l1" using Cons.prems(2) by auto
  show ?case
  proof (cases "\<exists>w\<in>set vs. ?L w > ?l1")
    case True
    from Cons.IH [OF step l1(1) True] obtain k where k: "k < length vs" "b = vs ! k"
      "l = ?L (vs ! k)" "?l1 < l" "\<forall>j<length vs. ?L (vs ! j) \<le> l" "\<forall>j<k. ?L (vs ! j) < l"
      by blast
    have "\<forall>j<length (v # vs). ?L ((v # vs) ! j) \<le> l"
      using k(4,5) l1(3) by (auto simp add: nth_Cons split: nat.splits)
    moreover have "\<forall>j<Suc k. ?L ((v # vs) ! j) < l"
      using k(4,6) l1(3) by (auto simp add: nth_Cons split: nat.splits)
    moreover have "l0 < l" using k(4) l1(2) by linarith
    ultimately show ?thesis using k(1,2,3) by (intro exI [of _ "Suc k"]) simp
  next
    case False
    then have all: "\<forall>w\<in>set vs. ?L w \<le> ?l1" by auto
    from results_loop_none [OF step l1(1) all] have bl: "b = ?b1" "l = ?l1" by simp_all
    from False Cons.prems(3) have gt: "?L v > l0" by (auto split: if_splits)
    with bl have "b = v" "l = ?L v" by simp_all
    moreover have "\<forall>j<length (v # vs). ?L ((v # vs) ! j) \<le> ?L v"
      using all gt by (auto simp add: nth_Cons split: nat.splits)
    ultimately show ?thesis using gt by (intro exI [of _ 0]) simp
  qed
qed

text \<open>
  C4, as the code has it: the loop starts from the control with the best lift 0 and moves
  only to a variant whose lift is greater. With a control at 10 of 100 and one treatment
  at 5 of 100 (lift -50) the variant chosen as best is the control, not the treatment,
  and the best lift is 0.
\<close>

theorem results_loop_counterexample:
  "results_loop (mk_variant ''control'' 100 10) (mk_variant ''control'' 100 10) 0
     [mk_variant ''control'' 100 10, mk_variant ''treatment'' 100 5]
   = (mk_variant ''control'' 100 10, 0,
      [make_result (mk_variant ''control'' 100 10) 0,
       make_result (mk_variant ''treatment'' 100 5) (- 50)])"
  by (simp add: mk_variant_def conversion_rate_def make_result_def Let_def)

text \<open>
  C4, amended: for a snapshot with the control first, every variant's reported lift is the
  lift of the specification. When some variant after the control has a positive lift, the
  variant chosen as best is not the control: it is the first of the variants after the
  control that has the highest lift (every other lift is at most its lift, every earlier
  one is less). When no variant after the control has a positive lift, the variant
  chosen as best is the control, with the best lift 0.
\<close>

theorem results_loop_best:
  assumes "results_loop control control 0 (control # rest) = (b, l, rs)"
  shows "map r_lift rs = map (spec_lift control) (control # rest) \<and>
         ((\<forall>v\<in>set rest. spec_lift control v \<le> 0) \<longrightarrow> b = control \<and> l = 0) \<and>
         ((\<exists>v\<in>set rest. spec_lift control v > 0) \<longrightarrow>
            (\<exists>k<length rest. b = rest ! k \<and> b \<noteq> control \<and> l = spec_lift control (rest ! k) \<and>
               (\<forall>j<length rest. spec_lift control (rest ! j) \<le> l) \<and>
               (\<forall>j<k. spec_lift control (rest ! j) < l)))"
proof -
  have lifts: "map r_lift rs = map (spec_lift control) (control # rest)"
    using assms by (rule results_loop_lifts)
  from results_loop_step [OF assms] obtain rs' where
    step: "results_loop control control 0 rest = (b, l, rs')"
    by (auto simp add: spec_lift_control)
  have none: "b = control \<and> l = 0" if "\<forall>v\<in>set rest. spec_lift control v \<le> 0"
    using results_loop_none [OF step] that by simp
  have some: "\<exists>k<length rest. b = rest ! k \<and> b \<noteq> control \<and> l = spec_lift control (rest ! k) \<and>
               (\<forall>j<length rest. spec_lift control (rest ! j) \<le> l) \<and>
               (\<forall>j<k. spec_lift control (rest ! j) < l)"
    if "\<exists>v\<in>set rest. spec_lift control v > 0"
  proof -
    from results_loop_some [OF step] that obtain k where k: "k < length rest" "b = rest ! k"
      "l = spec_lift control (rest ! k)" "0 < l"
      "\<forall>j<length rest. spec_lift control (rest ! j) \<le> l"
      "\<forall>j<k. spec_lift control (rest ! j) < l" by auto
    from k(2,3,4) have "b \<noteq> control" using spec_lift_control [of control] by auto
    with k show ?thesis by blast
  qed
  from lifts none some show ?thesis by blast
qed


theorem results_loop_best_witness:
  "fst (results_loop (mk_variant ''control'' 100 10) (mk_variant ''control'' 100 10) 0
     [mk_variant ''control'' 100 10, mk_variant ''a'' 100 20, mk_variant ''b'' 100 20])
     = mk_variant ''a'' 100 20 \<and>
   map r_lift (snd (snd (results_loop (mk_variant ''control'' 100 10)
     (mk_variant ''control'' 100 10) 0
     [mk_variant ''control'' 100 10, mk_variant ''a'' 100 20, mk_variant ''b'' 100 20])))
     = [0, 100, 100]"
proof -
  let ?c = "mk_variant ''control'' 100 10"
  let ?rest = "[mk_variant ''a'' 100 20, mk_variant ''b'' 100 20]"
  obtain b l rs where r: "results_loop ?c ?c 0 (?c # ?rest) = (b, l, rs)"
    by (cases "results_loop ?c ?c 0 (?c # ?rest)") auto
  have la: "spec_lift ?c (mk_variant ''a'' 100 20) = 100"
    and lb: "spec_lift ?c (mk_variant ''b'' 100 20) = 100"
    and lc: "spec_lift ?c ?c = 0"
    by (simp_all add: spec_lift_def conversion_rate_def mk_variant_def)
  have pos: "\<exists>v\<in>set ?rest. spec_lift ?c v > 0" by (simp add: la)
  from results_loop_best [OF r] pos obtain k where
    lifts: "map r_lift rs = map (spec_lift ?c) (?c # ?rest)" and
    k: "k < length ?rest" "b = ?rest ! k" "l = spec_lift ?c (?rest ! k)"
       "\<forall>j<k. spec_lift ?c (?rest ! j) < l"
    by blast
  have "k = 0"
  proof (rule ccontr)
    assume "k \<noteq> 0"
    with k(1) have k1: "k = 1" by simp
    with k(4) have "spec_lift ?c (?rest ! 0) < l" by simp
    with k1 k(3) show False by (simp add: la lb)
  qed
  with k(2) have "b = mk_variant ''a'' 100 20" by simp
  with lifts r show ?thesis by (simp add: la lb lc)
qed

subsection \<open>Significance\<close>

text \<open>
  Where the pooled conversions lie between 0 and the pooled impressions,
  \<open>_calculate_significance\<close> computes the two-proportion test of the specification.
\<close>

lemma calculate_significance_in_range:
  assumes "0 \<le> conversions c + conversions b"
    and "conversions c + conversions b \<le> impressions c + impressions b"
  shows "calculate_significance c b =
     (if impressions c < 100 \<or> impressions b < 100 then Inr (False, 0)
      else if pooled c b = 0 \<or> pooled c b = 1 then Inr (False, 0)
      else Inr (z_score c b \<ge> 1.96, min 99.9 (50 + 25 * z_score c b)))"
proof (cases "impressions c < 100 \<or> impressions b < 100")
  case True
  then show ?thesis by (auto simp add: calculate_significance_def)
next
  case False
  then have n: "100 \<le> impressions c" "100 \<le> impressions b" by auto
  let ?p = "pooled c b"
  let ?x = "?p * (1 - ?p) * (1 / real_of_int (impressions c) + 1 / real_of_int (impressions b))"
  show ?thesis
  proof (cases "?p = 0 \<or> ?p = 1")
    case True
    with False show ?thesis
      by (auto simp add: calculate_significance_def pooled_def Let_def)
  next
    case p01: False
    from n have npos: "0 < real_of_int (impressions c + impressions b)" by simp
    from assms npos have "0 \<le> ?p" "?p \<le> 1" by (simp_all add: pooled_def)
    with p01 have "0 < ?p" "?p < 1" by auto
    then have "0 < ?p * (1 - ?p)" by simp
    moreover from n have "0 < 1 / real_of_int (impressions c) + 1 / real_of_int (impressions b)"
      by (simp add: add_pos_pos)
    ultimately have x: "0 < ?x" by (rule mult_pos_pos)
    then have "0 < sqrt ?x" by (rule real_sqrt_gt_zero)
    then have se: "sqrt ?x \<noteq> 0" by linarith
    from x have nx: "\<not> ?x < 0" by simp
    from False p01 nx se show ?thesis
      unfolding calculate_significance_def Let_def z_score_def pooled_def
      by (simp add: mult.commute)
  qed
qed


lemma calculate_significance_in_range_example:
  "calculate_significance (mk_variant ''control'' 200 80) (mk_variant ''treatment'' 200 120)
     = Inr (True, 99.9) \<and>
   calculate_significance (mk_variant ''control'' 50 5) (mk_variant ''treatment'' 50 6)
     = Inr (False, 0) \<and>
   calculate_significance (mk_variant ''control'' 100 0) (mk_variant ''treatment'' 100 0)
     = Inr (False, 0)"
proof -
  let ?c = "mk_variant ''control'' 200 80"
  let ?b = "mk_variant ''treatment'' 200 120"
  have sq: "sqrt (1 / 400) = 1 / 20"
    by (rule real_sqrt_unique) (simp_all add: power2_eq_square)
  have p: "pooled ?c ?b = 1 / 2"
    by (simp add: pooled_def mk_variant_def)
  have "z_score ?c ?b = \<bar>3 / 5 - 2 / 5\<bar> / sqrt (1 / 400)"
    unfolding z_score_def p by (simp add: conversion_rate_def mk_variant_def)
  then have z: "z_score ?c ?b = 4" by (simp add: sq)
  have h1: "0 \<le> conversions ?c + conversions ?b"
    and h2: "conversions ?c + conversions ?b \<le> impressions ?c + impressions ?b"
    by (simp_all add: mk_variant_def)
  have n: "\<not> (impressions ?c < 100 \<or> impressions ?b < 100)" by (simp add: mk_variant_def)
  from calculate_significance_in_range [OF h1 h2] n
  have a: "calculate_significance ?c ?b = Inr (True, 99.9)"
    by (simp add: p z)
  let ?c2 = "mk_variant ''control'' 50 5"
  let ?b2 = "mk_variant ''treatment'' 50 6"
  have "0 \<le> conversions ?c2 + conversions ?b2"
    and "conversions ?c2 + conversions ?b2 \<le> impressions ?c2 + impressions ?b2"
    by (simp_all add: mk_variant_def)
  from calculate_significance_in_range [OF this]
  have b: "calculate_significance ?c2 ?b2 = Inr (False, 0)"
    by (simp add: mk_variant_def)
  let ?c3 = "mk_variant ''control'' 100 0"
  let ?b3 = "mk_variant ''treatment'' 100 0"
  have "0 \<le> conversions ?c3 + conversions ?b3"
    and "conversions ?c3 + conversions ?b3 \<le> impressions ?c3 + impressions ?b3"
    by (simp_all add: mk_variant_def)
  from calculate_significance_in_range [OF this]
  have c: "calculate_significance ?c3 ?b3 = Inr (False, 0)"
    by (simp add: mk_variant_def pooled_def)
  from a b c show ?thesis by simp
qed

lemma calculate_significance_above_one:
  assumes "100 \<le> impressions c" and "100 \<le> impressions b"
    and "impressions c + impressions b < conversions c + conversions b"
  shows "calculate_significance c b = Inl ValueError"
proof -
  let ?p = "pooled c b"
  from assms(1,2) have npos: "0 < real_of_int (impressions c + impressions b)" by simp
  from assms(3) have "real_of_int (impressions c + impressions b)
                        < real_of_int (conversions c + conversions b)" by linarith
  with npos have p: "1 < ?p" by (simp add: pooled_def)
  then have "?p * (1 - ?p) < 0" by (simp add: mult_pos_neg)
  moreover from assms(1,2)
  have "0 < 1 / real_of_int (impressions c) + 1 / real_of_int (impressions b)"
    by (simp add: add_pos_pos)
  ultimately have "?p * (1 - ?p)
      * (1 / real_of_int (impressions c) + 1 / real_of_int (impressions b)) < 0"
    by (rule mult_neg_pos)
  with assms(1,2) p show ?thesis
    unfolding calculate_significance_def Let_def pooled_def by simp
qed

text \<open>
  C5, at a failing input: the conversions are not bounded by the impressions
  (\<open>record_conversion\<close> counts every call for an assigned user). For a control with 100
  impressions and 300 conversions against a treatment with 100 impressions and none, the
  pooled proportion is 3/2, the argument of \<open>math.sqrt\<close> is negative, and
  \<open>_calculate_significance\<close> raises ValueError where its docstring promises a tuple and
  the claim a verdict; \<open>get_experiment_results\<close> for an experiment with these two
  variants raises with it.
\<close>

theorem calculate_significance_value_error:
  "pooled (mk_variant ''control'' 100 300) (mk_variant ''treatment'' 100 0) = 3 / 2 \<and>
   calculate_significance (mk_variant ''control'' 100 300) (mk_variant ''treatment'' 100 0)
     = Inl ValueError \<and>
   get_experiment_results
     (mk_service 1 (mk_experiment RUNNING (Some 1)
        [mk_variant ''control'' 100 300, mk_variant ''treatment'' 100 0]) Map.empty) ''e1''
     = Inl ValueError"
  by (simp add: get_experiment_results_def calculate_significance_def pooled_def mk_service_def
        mk_experiment_def mk_variant_def conversion_rate_def Let_def)

subsection \<open>Repeated assignment\<close>

text \<open>
  C1, at a failing input: a Running experiment with the arms control and treatment, the
  sample rate one half, the user user123 not yet assigned. A call in which
  \<open>random.random()\<close> returns 0.9 is excluded by the sampling gate: it returns the default
  variant "control" and stores nothing. A call with the same arguments in the same state
  in which it returns 0.1 passes the gate: the digest puts the user at 0.724, in the
  second arm, and the call returns "treatment". The decision of the gate depends on the
  number drawn, not on the user and the experiment.
\<close>

theorem get_variant_sampling_gate_flips:
  "get_variant md5_user123_e1
     (mk_service (1 / 2) (mk_experiment RUNNING (Some 1) two_arms) Map.empty)
     ''e1'' ''user123'' (9 / 10)
   = Inr ((''control'', Map.empty),
          mk_service (1 / 2) (mk_experiment RUNNING (Some 1) two_arms) Map.empty)
   \<and>
   get_variant md5_user123_e1
     (mk_service (1 / 2) (mk_experiment RUNNING (Some 1) two_arms) Map.empty)
     ''e1'' ''user123'' (1 / 10)
   = Inr ((''treatment'', Map.empty),
          mk_service (1 / 2)
            (mk_experiment RUNNING (Some 1)
               [mk_variant ''control'' 0 0, mk_variant ''treatment'' 1 0])
            [''user123'' \<mapsto> [''e1'' \<mapsto> ''treatment'']])"
  by (simp add: get_variant_def assign_variant_def md5_user123_e1_def to_float_small mk_service_def
        mk_experiment_def two_arms_def mk_variant_def Let_def)

text \<open>
  C2, as the code has it: one call (N = 1) for a user that the sampling gate excludes
  leaves every impression counter at 0.
\<close>

theorem get_variant_calls_counterexample:
  "get_variant_calls md5_user123_e1
     (mk_service (1 / 2) (mk_experiment RUNNING (Some 1) two_arms) Map.empty)
     ''e1'' ''user123'' [9 / 10]
   = Inr ([(''control'', Map.empty)],
          mk_service (1 / 2) (mk_experiment RUNNING (Some 1) two_arms) Map.empty)
   \<and> map impressions two_arms = [0, 0]"
  by (simp add: get_variant_def mk_service_def mk_experiment_def two_arms_def mk_variant_def)

lemma assign_loop_range:
  "assign_loop n c j vs = Some k \<Longrightarrow> j \<le> k \<and> k < j + length vs"
proof (induction vs arbitrary: c j)
  case Nil
  then show ?case by simp
next
  case (Cons v vs)
  show ?case
  proof (cases "fle (Fl n) (fadd c (weight v))")
    case True
    with Cons.prems show ?thesis by (simp add: Let_def)
  next
    case False
    with Cons.prems have "assign_loop n (fadd c (weight v)) (Suc j) vs = Some k"
      by (simp add: Let_def)
    from Cons.IH [OF this] show ?thesis by simp
  qed
qed

lemma assign_variant_range:
  assumes "variants x \<noteq> []"
  shows "\<exists>k<length (variants x). assign_variant md5 x u = Inr k"
proof (cases "assign_loop (real (md5 (u @ '':'' @ eid x) mod 10000) / 10000) (Fl 0) 0
               (variants x)")
  case None
  with assms show ?thesis by (simp add: assign_variant_def Let_def)
next
  case (Some k)
  from assign_loop_range [OF Some] Some show ?thesis
    by (simp add: assign_variant_def Let_def)
qed

lemma get_variant_excluded:
  assumes "experiments s i = Some x" and "assignment_of s u i = None"
    and "r > sample_rate s"
  shows "get_variant md5 s i u r = Inr ((default_variant s, Map.empty), s)"
  using assms
  by (auto simp add: get_variant_def assignment_of_def split: option.splits)

lemma get_variant_stored:
  assumes "enabled s" and "experiments s i = Some x" and "status x = RUNNING"
    and "assignment_of s u i = Some n" and "find (\<lambda>v. name v = n) (variants x) = Some v"
  shows "get_variant md5 s i u r = Inr ((name v, config v), s)"
  using assms
  by (auto simp add: get_variant_def assignment_of_def split: option.splits)

lemma get_variant_calls_stored:
  assumes "enabled s" and "experiments s i = Some x" and "status x = RUNNING"
    and "assignment_of s u i = Some n" and "find (\<lambda>v. name v = n) (variants x) = Some v"
  shows "get_variant_calls md5 s i u rs = Inr (map (\<lambda>r. (name v, config v)) rs, s)"
  by (induction rs) (simp_all add: get_variant_stored [OF assms])

lemma get_variant_included:
  assumes "enabled s" and "experiments s i = Some x" and "status x = RUNNING"
    and "assignment_of s u i = None" and "r \<le> sample_rate s"
    and "assign_variant md5 x u = Inr k"
  shows "\<exists>res s'. get_variant md5 s i u r = Inr (res, s') \<and> enabled s' \<and>
           sample_rate s' = sample_rate s \<and>
           experiments s' i = Some (x\<lparr>variants := count_impression (variants x) k\<rparr>) \<and>
           assignment_of s' u i = Some (name (variants x ! k))"
  using assms
  by (auto simp add: get_variant_def assignment_of_def count_impression_def Let_def
           split: option.splits)


lemma find_count_impression:
  assumes "k < length vs"
  shows "\<exists>v. find (\<lambda>v. name v = name (vs ! k)) (count_impression vs k) = Some v"
proof -
  from assms have "k < length (count_impression vs k)"
    by (simp add: count_impression_def)
  then have "count_impression vs k ! k \<in> set (count_impression vs k)"
    by (rule nth_mem)
  moreover from assms have "name (count_impression vs k ! k) = name (vs ! k)"
    by (simp add: count_impression_def)
  ultimately have "\<exists>v\<in>set (count_impression vs k). name v = name (vs ! k)" by blast
  then have "find (\<lambda>v. name v = name (vs ! k)) (count_impression vs k) \<noteq> None"
    by (auto simp add: find_None_iff)
  then show ?thesis by blast
qed

lemma get_variant_calls_unassigned:
  assumes "enabled s" and "experiments s i = Some x" and "status x = RUNNING"
    and "assignment_of s u i = None"
    and "assign_variant md5 x u = Inr k" and "k < length (variants x)"
  shows "\<exists>ress s'. get_variant_calls md5 s i u rs = Inr (ress, s') \<and>
           experiments s' i = Some (x\<lparr>variants :=
             (if \<exists>r\<in>set rs. r \<le> sample_rate s then count_impression (variants x) k
              else variants x)\<rparr>)"
proof (induction rs)
  case Nil
  from assms(2) show ?case by simp
next
  case (Cons r rs)
  show ?case
  proof (cases "r \<le> sample_rate s")
    case True
    let ?x' = "x\<lparr>variants := count_impression (variants x) k\<rparr>"
    from get_variant_included [OF assms(1-4) True assms(5)]
    obtain res s' where g: "get_variant md5 s i u r = Inr (res, s')" and en: "enabled s'"
      and x': "experiments s' i = Some ?x'"
      and a: "assignment_of s' u i = Some (name (variants x ! k))"
      by blast
    from find_count_impression [OF assms(6)] obtain v where
      "find (\<lambda>v. name v = name (variants x ! k)) (variants ?x') = Some v" by auto
    from get_variant_calls_stored [OF en x' _ a this, of md5 rs] assms(3)
    have "get_variant_calls md5 s' i u rs = Inr (map (\<lambda>r. (name v, config v)) rs, s')"
      by simp
    with g have "get_variant_calls md5 s i u (r # rs)
                   = Inr (res # map (\<lambda>r. (name v, config v)) rs, s')" by simp
    with x' True show ?thesis by auto
  next
    case False
    then have "r > sample_rate s" by simp
    from get_variant_excluded [OF assms(2,4) this]
    have g: "get_variant md5 s i u r = Inr ((default_variant s, Map.empty), s)" .
    from Cons.IH obtain ress s' where
      c: "get_variant_calls md5 s i u rs = Inr (ress, s')" and
      x': "experiments s' i = Some (x\<lparr>variants :=
             (if \<exists>r\<in>set rs. r \<le> sample_rate s then count_impression (variants x) k
              else variants x)\<rparr>)" by blast
    from g c have "get_variant_calls md5 s i u (r # rs)
                     = Inr ((default_variant s, Map.empty) # ress, s')" by simp
    with x' False show ?thesis by auto
  qed
qed

text \<open>
  C2, amended: with the service enabled, for a Running experiment with at least one
  variant. For a user without a stored assignment, N calls of \<open>get_variant\<close> add exactly
  1 to the impressions of the variant the digest selects when at least one of the
  numbers drawn passes the sampling gate (it is at most the sample rate), and leave the
  experiment as it was when none does; never more than 1. For a user whose stored
  assignment names a variant, every call returns that variant and the state is unchanged.
\<close>

theorem get_variant_calls_impressions:
  assumes "enabled s" and "experiments s i = Some x" and "status x = RUNNING"
    and "variants x \<noteq> []"
  shows "(assignment_of s u i = None \<longrightarrow>
           (\<exists>k<length (variants x). assign_variant md5 x u = Inr k \<and>
              (\<exists>ress s'. get_variant_calls md5 s i u rs = Inr (ress, s') \<and>
                 experiments s' i = Some (x\<lparr>variants :=
                   (if \<exists>r\<in>set rs. r \<le> sample_rate s then count_impression (variants x) k
                    else variants x)\<rparr>)))) \<and>
         (\<forall>n v. assignment_of s u i = Some n \<and> find (\<lambda>v. name v = n) (variants x) = Some v \<longrightarrow>
            get_variant_calls md5 s i u rs = Inr (map (\<lambda>r. (name v, config v)) rs, s))"
proof -
  from assign_variant_range [OF assms(4), of md5 u] obtain k where
    k: "k < length (variants x)" "assign_variant md5 x u = Inr k" by blast
  have one: "\<exists>k<length (variants x). assign_variant md5 x u = Inr k \<and>
              (\<exists>ress s'. get_variant_calls md5 s i u rs = Inr (ress, s') \<and>
                 experiments s' i = Some (x\<lparr>variants :=
                   (if \<exists>r\<in>set rs. r \<le> sample_rate s then count_impression (variants x) k
                    else variants x)\<rparr>))"
    if "assignment_of s u i = None"
    using get_variant_calls_unassigned [OF assms(1-3) that k(2,1), of rs] k by blast
  have two: "get_variant_calls md5 s i u rs = Inr (map (\<lambda>r. (name v, config v)) rs, s)"
    if "assignment_of s u i = Some n \<and> find (\<lambda>v. name v = n) (variants x) = Some v" for n v
    using get_variant_calls_stored [OF assms(1-3), of u n v md5 rs] that by blast
  from one two show ?thesis by blast
qed


theorem get_variant_calls_impressions_witness:
  "(\<exists>ress s'. get_variant_calls md5_user123_e1
        (mk_service (1 / 2) (mk_experiment RUNNING (Some 1) two_arms) Map.empty)
        ''e1'' ''user123'' [9 / 10, 1 / 10, 1 / 5] = Inr (ress, s') \<and>
      experiments s' ''e1'' = Some (mk_experiment RUNNING (Some 1)
        [mk_variant ''control'' 0 0, mk_variant ''treatment'' 1 0])) \<and>
   get_variant_calls md5_user123_e1
        (mk_service (1 / 2) (mk_experiment RUNNING (Some 1)
            [mk_variant ''control'' 0 0, mk_variant ''treatment'' 1 0])
          [''user123'' \<mapsto> [''e1'' \<mapsto> ''treatment'']])
        ''e1'' ''user123'' [1 / 10, 9 / 10]
     = Inr ([(''treatment'', Map.empty), (''treatment'', Map.empty)],
          mk_service (1 / 2) (mk_experiment RUNNING (Some 1)
            [mk_variant ''control'' 0 0, mk_variant ''treatment'' 1 0])
          [''user123'' \<mapsto> [''e1'' \<mapsto> ''treatment'']])"
proof -
  let ?x = "mk_experiment RUNNING (Some 1) two_arms"
  let ?s = "mk_service (1 / 2) ?x Map.empty"
  have h: "enabled ?s" "experiments ?s ''e1'' = Some ?x" "status ?x = RUNNING"
    "variants ?x \<noteq> []"
    by (simp_all add: mk_service_def mk_experiment_def two_arms_def)
  have none: "assignment_of ?s ''user123'' ''e1'' = None"
    by (simp add: assignment_of_def mk_service_def)
  have av: "assign_variant md5_user123_e1 ?x ''user123'' = Inr 1"
    by (simp add: assign_variant_def md5_user123_e1_def to_float_small mk_experiment_def two_arms_def
          mk_variant_def Let_def)
  have gate: "\<exists>r\<in>set [9 / 10, 1 / 10, 1 / 5]. r \<le> sample_rate ?s"
    by (simp add: mk_service_def)
  from get_variant_calls_impressions [OF h, of "''user123''" md5_user123_e1
      "[9 / 10, 1 / 10, 1 / 5]"] none av gate
  obtain ress s' where r: "get_variant_calls md5_user123_e1 ?s ''e1'' ''user123''
        [9 / 10, 1 / 10, 1 / 5] = Inr (ress, s')"
      "experiments s' ''e1'' = Some (?x\<lparr>variants := count_impression (variants ?x) 1\<rparr>)"
    by auto
  have "?x\<lparr>variants := count_impression (variants ?x) 1\<rparr>
          = mk_experiment RUNNING (Some 1)
              [mk_variant ''control'' 0 0, mk_variant ''treatment'' 1 0]"
    by (simp add: count_impression_def mk_experiment_def two_arms_def mk_variant_def)
  with r have one: "\<exists>ress s'. get_variant_calls md5_user123_e1 ?s
        ''e1'' ''user123'' [9 / 10, 1 / 10, 1 / 5] = Inr (ress, s') \<and>
      experiments s' ''e1'' = Some (mk_experiment RUNNING (Some 1)
        [mk_variant ''control'' 0 0, mk_variant ''treatment'' 1 0])"
    by simp
  let ?y = "mk_experiment RUNNING (Some 1)
            [mk_variant ''control'' 0 0, mk_variant ''treatment'' 1 0]"
  let ?t = "mk_service (1 / 2) ?y [''user123'' \<mapsto> [''e1'' \<mapsto> ''treatment'']]"
  have g: "enabled ?t" "experiments ?t ''e1'' = Some ?y" "status ?y = RUNNING"
    "variants ?y \<noteq> []"
    by (simp_all add: mk_service_def mk_experiment_def)
  have stored: "assignment_of ?t ''user123'' ''e1'' = Some ''treatment'' \<and>
      find (\<lambda>v. name v = ''treatment'') (variants ?y) = Some (mk_variant ''treatment'' 1 0)"
    by (simp add: assignment_of_def mk_service_def mk_experiment_def mk_variant_def)
  from get_variant_calls_impressions [OF g, of "''user123''" md5_user123_e1 "[1 / 10, 9 / 10]",
      THEN conjunct2, rule_format, OF stored]
  have "get_variant_calls md5_user123_e1 ?t ''e1'' ''user123'' [1 / 10, 9 / 10]
          = Inr (map (\<lambda>r. (name (mk_variant ''treatment'' 1 0),
                           config (mk_variant ''treatment'' 1 0))) [1 / 10, 9 / 10 :: real], ?t)" .
  then have two: "get_variant_calls md5_user123_e1 ?t ''e1'' ''user123'' [1 / 10, 9 / 10]
          = Inr ([(''treatment'', Map.empty), (''treatment'', Map.empty)], ?t)"
    by (simp add: mk_variant_def)
  from one two show ?thesis by blast
qed


end
